theory Spec2Isabelle
  imports
    Complex_Main
    "HOL-Library.AList"
    "HOL-Library.Char_ord"
    "HOL-Library.List_Lexorder"
    "HOL-Library.Product_Lexorder"
begin

section \<open>Telesense: the data model\<close>

text \<open>
  The reporter (\<^verbatim>\<open>Telesense_analysis.py\<close>) works on one pandas DataFrame built from the
  \<^verbatim>\<open>data_records\<close> of the snapshot. A cell holds what \<^verbatim>\<open>json.load\<close> delivers (null, a
  boolean, a number, a string) or the float NaN that pandas puts where a record lacks a
  key. Numbers are Python integers; floating-point numbers other than NaN are outside the
  model. A \<^verbatim>\<open>datetime64[ns]\<close> column, which only \<^verbatim>\<open>pd.to_datetime\<close> creates, is held as
  pandas holds it, by its integer nanoseconds (here counted from 0001-01-01T00:00:00, the
  origin of Python's \<^verbatim>\<open>datetime\<close>), with NaN standing for NaT.
\<close>

datatype cell = PyNone | NaN | PyBool bool | PyInt int | PyStr string

type_synonym row = "(string \<times> cell) list"

record dataframe =
  columns :: "string list"
  rows :: "row list"

text \<open>The exceptions that the modelled statements raise.\<close>

datatype error = KeyError string | TypeError | ValueError | OverflowError | Exception string

text \<open>A record that lacks a key reads as NaN in the frame.\<close>

definition cell_of :: "row \<Rightarrow> string \<Rightarrow> cell" where
  "cell_of r c = (case map_of r c of None \<Rightarrow> NaN | Some v \<Rightarrow> v)"

text \<open>\<^verbatim>\<open>pd.DataFrame(data_records)\<close>: the columns are the keys in order of first appearance.\<close>

definition DataFrame :: "row list \<Rightarrow> dataframe" where
  "DataFrame records =
     \<lparr>columns = rev (remdups (rev (concat (map (map fst) records)))),
      rows = records\<rparr>"

text \<open>\<^verbatim>\<open>df.empty\<close>: one of the two axes has length 0.\<close>

definition df_empty :: "dataframe \<Rightarrow> bool" where
  "df_empty df \<longleftrightarrow> columns df = [] \<or> rows df = []"

text \<open>\<^verbatim>\<open>pd.isna\<close> on one cell.\<close>

fun isna :: "cell \<Rightarrow> bool" where
  "isna PyNone = True"
| "isna NaN = True"
| "isna _ = False"

text \<open>\<^verbatim>\<open>df[col]\<close> raises KeyError when the frame has no such column.\<close>

definition getitem :: "dataframe \<Rightarrow> string \<Rightarrow> error + cell list" where
  "getitem df c =
     (if c \<in> set (columns df) then Inr (map (\<lambda>r. cell_of r c) (rows df))
      else Inl (KeyError c))"

text \<open>\<^verbatim>\<open>df[col] = values\<close>: the column is replaced, or appended when it is new.\<close>

definition setitem :: "dataframe \<Rightarrow> string \<Rightarrow> cell list \<Rightarrow> dataframe" where
  "setitem df c vs =
     \<lparr>columns = (if c \<in> set (columns df) then columns df else columns df @ [c]),
      rows = map (\<lambda>(r, v). AList.update c v r) (zip (rows df) vs)\<rparr>"

text \<open>\<^verbatim>\<open>df.head(n)\<close>: the first n rows, and all but the last \<open>-n\<close> rows when n is negative.\<close>

definition head :: "int \<Rightarrow> 'a list \<Rightarrow> 'a list" where
  "head n xs = (if 0 \<le> n then take (nat n) xs else take (length xs - nat (- n)) xs)"

subsection \<open>Text\<close>

definition digit :: "nat \<Rightarrow> char" where
  "digit d = char_of (48 + d)"

fun show_nat :: "nat \<Rightarrow> string" where
  "show_nat n = (if n < 10 then [digit n] else show_nat (n div 10) @ [digit (n mod 10)])"

declare show_nat.simps [simp del]

definition show_int :: "int \<Rightarrow> string" where
  "show_int i = (if i < 0 then CHR ''-'' # show_nat (nat (- i)) else show_nat (nat i))"

text \<open>A name between single quotes, as the messages show it.\<close>

definition quoted :: "string \<Rightarrow> string" where
  "quoted s = CHR 0x27 # s @ [CHR 0x27]"

text \<open>\<^verbatim>\<open>str(x)\<close> of a cell, as \<^verbatim>\<open>astype(str)\<close> applies it to an object column.\<close>

fun py_str :: "cell \<Rightarrow> string" where
  "py_str PyNone = ''None''"
| "py_str NaN = ''nan''"
| "py_str (PyBool b) = (if b then ''True'' else ''False'')"
| "py_str (PyInt n) = show_int n"
| "py_str (PyStr s) = s"

text \<open>\<^verbatim>\<open>str.lower\<close> on the ASCII letters.\<close>

definition lower_char :: "char \<Rightarrow> char" where
  "lower_char c =
     (if 65 \<le> (of_char c :: nat) \<and> (of_char c :: nat) \<le> 90
      then char_of ((of_char c :: nat) + 32) else c)"

definition lower :: "string \<Rightarrow> string" where
  "lower s = map lower_char s"

subsection \<open>The store\<close>

text \<open>
  Frames are objects: \<^verbatim>\<open>df.copy()\<close> makes a new one and \<^verbatim>\<open>df[col] = ...\<close> changes the one
  it is applied to. The store lists the frames by address; the module binds the global
  \<^verbatim>\<open>df_combined_telemetry\<close> to the first frame it creates, at address 0. The frames that
  \<^verbatim>\<open>dropna\<close>, boolean indexing, \<^verbatim>\<open>sort_values\<close>, \<^verbatim>\<open>drop_duplicates\<close> and \<^verbatim>\<open>groupby\<close>
  return are new objects that nothing assigns to; they are kept as values.
\<close>

type_synonym addr = nat

type_synonym store = "dataframe list"

definition df_combined_telemetry :: addr where
  "df_combined_telemetry = 0"

definition deref :: "store \<Rightarrow> addr \<Rightarrow> dataframe" where
  "deref h a = (if a < length h then h ! a else \<lparr>columns = [], rows = []\<rparr>)"

definition copy :: "store \<Rightarrow> addr \<Rightarrow> addr \<times> store" where
  "copy h a = (length h, h @ [deref h a])"

definition store_setitem :: "store \<Rightarrow> addr \<Rightarrow> string \<Rightarrow> cell list \<Rightarrow> store" where
  "store_setitem h a c vs = h[a := setitem (deref h a) c vs]"

text \<open>The store right after the module has loaded the records of the snapshot.\<close>

definition loaded :: "dataframe \<Rightarrow> store" where
  "loaded df = [df]"

subsection \<open>Dates\<close>

definition ns_per_day :: int where
  "ns_per_day = 86400 * 1000000000"

text \<open>\<^verbatim>\<open>datetime.max\<close> is the last microsecond of the day of ordinal 3652059.\<close>

definition datetime_end :: int where
  "datetime_end = 3652059 * ns_per_day"

text \<open>\<^verbatim>\<open>timedelta(days=n)\<close> raises OverflowError beyond 999999999 days.\<close>

definition timedelta_days :: "int \<Rightarrow> error + int" where
  "timedelta_days n =
     (if - 999999999 \<le> n \<and> n \<le> 999999999 then Inr (n * ns_per_day) else Inl OverflowError)"

text \<open>\<^verbatim>\<open>datetime - timedelta\<close> raises OverflowError when the result is not a datetime.\<close>

definition datetime_sub :: "int \<Rightarrow> int \<Rightarrow> error + int" where
  "datetime_sub t d =
     (if 0 \<le> t - d \<and> t - d < datetime_end then Inr (t - d) else Inl OverflowError)"

text \<open>
  \<^verbatim>\<open>pd.to_datetime(column, errors='coerce')\<close>. How pandas reads one value as a time depends
  on the column it stands in: the format is guessed from the column, and the column as a
  whole becomes \<^verbatim>\<open>datetime64[ns]\<close>, times without a zone, or \<^verbatim>\<open>datetime64[ns, tz]\<close>, when
  its values carry an offset from UTC. That reading of a column is the parameter
  \<open>parse\<close>; a value it does not read becomes NaT.
\<close>

datatype reading = Naive "cell \<Rightarrow> int option" | Aware "cell \<Rightarrow> int option"

fun read_time :: "reading \<Rightarrow> cell \<Rightarrow> int option" where
  "read_time (Naive f) c = f c"
| "read_time (Aware f) c = f c"

fun tz_aware :: "reading \<Rightarrow> bool" where
  "tz_aware (Naive f) = False"
| "tz_aware (Aware f) = True"

definition to_datetime :: "(cell list \<Rightarrow> reading) \<Rightarrow> cell list \<Rightarrow> cell list" where
  "to_datetime parse cs =
     map (\<lambda>c. case read_time (parse cs) c of None \<Rightarrow> NaN | Some t \<Rightarrow> PyInt t) cs"

text \<open>\<^verbatim>\<open>df.dropna(subset=[col])\<close>.\<close>

definition dropna :: "string \<Rightarrow> dataframe \<Rightarrow> dataframe" where
  "dropna c df = df\<lparr>rows := filter (\<lambda>r. \<not> isna (cell_of r c)) (rows df)\<rparr>"

text \<open>The mask \<^verbatim>\<open>(col >= start_date) & (col <= end_date)\<close> on a datetime column.\<close>

fun in_window :: "int \<Rightarrow> int \<Rightarrow> cell \<Rightarrow> bool" where
  "in_window start_date end_date (PyInt t) \<longleftrightarrow> start_date \<le> t \<and> t \<le> end_date"
| "in_window start_date end_date _ \<longleftrightarrow> False"

section \<open>The reports\<close>

text \<open>
  A report function returns a string built from numbers and from the markdown rendering of
  a small frame. The model returns the values that the string is made of: the message, or
  the numbers and the rows of the table, a rate as the exact fraction that \<^verbatim>\<open>:.2%\<close> prints.
  A raised exception is the left summand.
\<close>

record job_summary =
  shown_days :: int
  total_jobs :: nat
  successful_jobs :: nat
  failed_jobs :: nat
  success_rate :: "rat option"
  total_hosts :: int
  sample_columns :: "string list"
  sample_rows :: "cell list list"

record compliance_summary =
  total_clusters :: nat
  compliant_count :: nat
  non_compliant_count :: nat
  compliance_rate :: "rat option"
  non_compliant_sample :: "(string list \<times> cell list list) option"

datatype report =
    Message string
  | JobRunSummary job_summary
  | TopModules int "(string \<times> string \<times> int) list"
  | ClusterCompliance compliance_summary

text \<open>\<^verbatim>\<open>df[cols]\<close> row by row, for columns that the frame has.\<close>

definition project :: "string list \<Rightarrow> row list \<Rightarrow> cell list list" where
  "project cols rs = map (\<lambda>r. map (cell_of r) cols) rs"

text \<open>
  \<^verbatim>\<open>Series.sum()\<close> of a column followed by the format \<^verbatim>\<open>:.0f\<close>. Nulls are skipped and a
  boolean counts as 0 or 1. A column of strings only sums to their concatenation, which
  the format refuses with ValueError; strings mixed with anything else make the sum raise
  TypeError.
\<close>

fun number_of :: "cell \<Rightarrow> int" where
  "number_of (PyInt n) = n"
| "number_of (PyBool b) = (if b then 1 else 0)"
| "number_of _ = 0"

fun is_str :: "cell \<Rightarrow> bool" where
  "is_str (PyStr s) = True"
| "is_str _ = False"

definition column_sum :: "cell list \<Rightarrow> error + int" where
  "column_sum cs =
     (if \<exists>c \<in> set cs. is_str c
      then (if \<forall>c \<in> set cs. is_str c then Inl ValueError else Inl TypeError)
      else Inr (sum_list (map number_of cs)))"

subsection \<open>Job run summary\<close>

definition count_status :: "string \<Rightarrow> cell list \<Rightarrow> nat" where
  "count_status s cs = length (filter (\<lambda>c. c = PyStr s) cs)"

text \<open>
  The body of \<^verbatim>\<open>get_jobs_run_summary\<close> from the line after the window filter: the numbers
  of the report over \<^verbatim>\<open>df_recent_jobs\<close>.
\<close>

definition summarize_jobs :: "int \<Rightarrow> dataframe \<Rightarrow> error + report" where
  "summarize_jobs n_days df_recent_jobs =
     (if df_empty df_recent_jobs
      then Inr (Message (''No job data found in the last '' @ show_int n_days @ '' days.''))
      else
        case getitem df_recent_jobs ''job_status'' of
          Inl e \<Rightarrow> Inl e
        | Inr statuses \<Rightarrow>
            (case (if ''job_host_count'' \<in> set (columns df_recent_jobs)
                   then column_sum (map (\<lambda>r. cell_of r ''job_host_count'') (rows df_recent_jobs))
                   else Inr 0) of
               Inl e \<Rightarrow> Inl e
             | Inr hosts \<Rightarrow>
                 (let total = length (rows df_recent_jobs);
                      successful = count_status ''successful'' statuses;
                      failed = count_status ''failed'' statuses;
                      sample_cols = filter (\<lambda>c. c \<in> set (columns df_recent_jobs))
                        [''job_created_date'', ''job_name'', ''job_status'',
                         ''job_elapsed_seconds'', ''job_org_id'']
                  in Inr (JobRunSummary
                       \<lparr>shown_days = n_days,
                        total_jobs = total,
                        successful_jobs = successful,
                        failed_jobs = failed,
                        success_rate =
                          (if total > 0 then Some (of_nat successful / of_nat total) else None),
                        total_hosts = hosts,
                        sample_columns = sample_cols,
                        sample_rows = project sample_cols (head 5 (rows df_recent_jobs))\<rparr>))))"

text \<open>
  \<^verbatim>\<open>get_jobs_run_summary(n_days)\<close>. \<open>now\<close> is what \<^verbatim>\<open>datetime.now()\<close> returns during the
  call, a time without a zone. Comparing a \<^verbatim>\<open>datetime64[ns, tz]\<close> column with it raises
  TypeError. The result is the returned report or the raised exception, with the store as
  the call leaves it.
\<close>

definition get_jobs_run_summary ::
  "(cell list \<Rightarrow> reading) \<Rightarrow> int \<Rightarrow> int \<Rightarrow> store \<Rightarrow> (error + report) \<times> store" where
  "get_jobs_run_summary parse now n_days h =
     (if df_empty (deref h df_combined_telemetry)
      then (Inr (Message ''No combined telemetry data available to analyze for jobs.''), h)
      else
        let (df_jobs, h1) = copy h df_combined_telemetry in
        case getitem (deref h1 df_jobs) ''job_created_timestamp'' of
          Inl e \<Rightarrow> (Inl e, h1)
        | Inr stamps \<Rightarrow>
            (let h2 = store_setitem h1 df_jobs ''job_created_timestamp'' (to_datetime parse stamps);
                 df_filtered = dropna ''job_created_timestamp'' (deref h2 df_jobs);
                 end_date = now
             in case timedelta_days n_days of
                  Inl e \<Rightarrow> (Inl e, h2)
                | Inr delta \<Rightarrow>
                    (case datetime_sub end_date delta of
                       Inl e \<Rightarrow> (Inl e, h2)
                     | Inr start_date \<Rightarrow>
                         if tz_aware (parse stamps) then (Inl TypeError, h2)
                         else
                           (let df_recent_jobs = df_filtered\<lparr>rows :=
                                  filter (\<lambda>r. in_window start_date end_date
                                                  (cell_of r ''job_created_timestamp''))
                                    (rows df_filtered)\<rparr>
                            in (summarize_jobs n_days df_recent_jobs, h2)))))"

subsection \<open>Top modules\<close>

text \<open>
  \<^verbatim>\<open>pd.to_numeric(column, errors='coerce')\<close> on one value. A number stays, a boolean is 0 or
  1, null is NaN. Which strings pandas reads as a number, and as which, is the parameter
  \<open>numeric\<close>; a string it does not read becomes NaN.
\<close>

fun to_numeric :: "(string \<Rightarrow> int option) \<Rightarrow> cell \<Rightarrow> cell" where
  "to_numeric numeric (PyInt n) = PyInt n"
| "to_numeric numeric (PyBool b) = PyInt (if b then 1 else 0)"
| "to_numeric numeric (PyStr s) = (case numeric s of None \<Rightarrow> NaN | Some n \<Rightarrow> PyInt n)"
| "to_numeric numeric PyNone = NaN"
| "to_numeric numeric NaN = NaN"

text \<open>\<^verbatim>\<open>fillna(0)\<close> on one value.\<close>

definition fillna0 :: "cell \<Rightarrow> cell" where
  "fillna0 c = (if isna c then PyInt 0 else c)"

text \<open>\<^verbatim>\<open>astype(str)\<close> on a column.\<close>

definition astype_str :: "cell list \<Rightarrow> cell list" where
  "astype_str cs = map (\<lambda>c. PyStr (py_str c)) cs"

text \<open>
  The mask \<^verbatim>\<open>notna() & (col != '') & (col != 'nan')\<close> on one value of \<^verbatim>\<open>module_name\<close>.
\<close>

definition clean_module :: "cell \<Rightarrow> bool" where
  "clean_module c \<longleftrightarrow> \<not> isna c \<and> c \<noteq> PyStr [] \<and> c \<noteq> PyStr ''nan''"

definition group_key :: "row \<Rightarrow> string \<times> string" where
  "group_key r = (py_str (cell_of r ''collection_name''), py_str (cell_of r ''module_name''))"

definition invocations :: "row \<Rightarrow> int" where
  "invocations r = number_of (cell_of r ''module_invocation_count'')"

text \<open>
  \<^verbatim>\<open>groupby(['collection_name', 'module_name'])['module_invocation_count'].sum()\<close> with
  \<^verbatim>\<open>reset_index()\<close>: one row per key, the keys in ascending order.
\<close>

definition groupby_sum :: "row list \<Rightarrow> ((string \<times> string) \<times> int) list" where
  "groupby_sum rs =
     map (\<lambda>k. (k, sum_list (map invocations (filter (\<lambda>r. group_key r = k) rs))))
       (sort (remdups (map group_key rs)))"

text \<open>
  \<^verbatim>\<open>sort_values(..., ascending=False)\<close> on the values that are not null: pandas reverses
  the rows, sorts them in ascending order and reverses the result. The sort is taken as
  stable, so rows with equal values keep their order; for pandas that order is whatever
  its sort yields.
\<close>

definition sort_descending :: "('a \<Rightarrow> 'k::linorder) \<Rightarrow> 'a list \<Rightarrow> 'a list" where
  "sort_descending f xs = rev (sort_key f (rev xs))"

text \<open>The ranked table of \<^verbatim>\<open>get_top_modules_used\<close> from the cleaned rows.\<close>

definition top_modules :: "int \<Rightarrow> row list \<Rightarrow> (string \<times> string \<times> int) list" where
  "top_modules top_n rs =
     map (\<lambda>((c, m), n). (c, m, n)) (head top_n (sort_descending snd (groupby_sum rs)))"

definition missing_module_columns :: string where
  "missing_module_columns =
     ''Missing '' @ quoted ''collection_name'' @ '', '' @ quoted ''module_name'' @ '', or '' @
     quoted ''module_invocation_count'' @ '' in combined data for module analysis. '' @
     ''Check the combined query in get_telesense_data.py.''"

definition get_top_modules_used ::
  "(string \<Rightarrow> int option) \<Rightarrow> int \<Rightarrow> store \<Rightarrow> (error + report) \<times> store" where
  "get_top_modules_used numeric top_n h =
     (if df_empty (deref h df_combined_telemetry)
      then (Inr (Message ''No combined telemetry data available to analyze for modules.''), h)
      else
        let (df_modules, h1) = copy h df_combined_telemetry;
            cols = columns (deref h1 df_modules)
        in if ''collection_name'' \<notin> set cols \<or> ''module_name'' \<notin> set cols
                \<or> ''module_invocation_count'' \<notin> set cols
           then (Inr (Message missing_module_columns), h1)
           else
             let h2 = store_setitem h1 df_modules ''collection_name''
                        (astype_str (map (\<lambda>r. cell_of r ''collection_name'')
                           (rows (deref h1 df_modules))));
                 h3 = store_setitem h2 df_modules ''module_name''
                        (astype_str (map (\<lambda>r. cell_of r ''module_name'')
                           (rows (deref h2 df_modules))));
                 h4 = store_setitem h3 df_modules ''module_invocation_count''
                        (map (\<lambda>r. fillna0 (to_numeric numeric
                                 (cell_of r ''module_invocation_count'')))
                           (rows (deref h3 df_modules)));
                 df_clean = (deref h4 df_modules)\<lparr>rows :=
                        filter (\<lambda>r. clean_module (cell_of r ''module_name''))
                          (rows (deref h4 df_modules))\<rparr>
             in if df_empty df_clean
                then (Inr (Message
                        ''No valid module usage data after cleaning in combined data.''), h4)
                else (Inr (TopModules top_n (top_modules top_n (rows df_clean))), h4))"

subsection \<open>Cluster compliance\<close>

fun is_number :: "cell \<Rightarrow> bool" where
  "is_number (PyInt n) = True"
| "is_number (PyBool b) = True"
| "is_number _ = False"

text \<open>
  \<^verbatim>\<open>df.sort_values(by=col, ascending=False)\<close>. KeyError when the frame has no such column.
  The rows whose value is null go last, in their order. The other rows are compared by
  Python's \<^verbatim>\<open><\<close>: strings with strings, numbers with numbers; a column that holds both
  makes the comparison, and so the sort, raise TypeError.
\<close>

definition sort_values_descending :: "string \<Rightarrow> dataframe \<Rightarrow> error + dataframe" where
  "sort_values_descending c df =
     (if c \<notin> set (columns df) then Inl (KeyError c)
      else
        let present = filter (\<lambda>r. \<not> isna (cell_of r c)) (rows df);
            missing = filter (\<lambda>r. isna (cell_of r c)) (rows df)
        in if \<forall>r \<in> set present. is_str (cell_of r c)
           then Inr (df\<lparr>rows := sort_descending (\<lambda>r. py_str (cell_of r c)) present @ missing\<rparr>)
           else if \<forall>r \<in> set present. is_number (cell_of r c)
           then Inr (df\<lparr>rows := sort_descending (\<lambda>r. number_of (cell_of r c)) present @ missing\<rparr>)
           else Inl TypeError)"

text \<open>
  The value that \<^verbatim>\<open>drop_duplicates\<close> compares: the nulls are one value, and a boolean is
  the number it equals.
\<close>

fun dup_value :: "cell \<Rightarrow> cell" where
  "dup_value PyNone = NaN"
| "dup_value (PyBool b) = PyInt (if b then 1 else 0)"
| "dup_value c = c"

definition cluster_key :: "row \<Rightarrow> cell \<times> cell" where
  "cluster_key r = (dup_value (cell_of r ''job_org_id''), dup_value (cell_of r ''job_cluster_id''))"

text \<open>Of the rows with the same key, the first one stays.\<close>

fun keep_first :: "('a \<Rightarrow> 'k) \<Rightarrow> 'a list \<Rightarrow> 'a list" where
  "keep_first key [] = []"
| "keep_first key (x # xs) = x # keep_first key (filter (\<lambda>y. key y \<noteq> key x) xs)"

text \<open>
  \<^verbatim>\<open>df.drop_duplicates(subset=['job_org_id', 'job_cluster_id'])\<close>. KeyError when the frame
  lacks one of the two columns.
\<close>

definition drop_duplicates :: "dataframe \<Rightarrow> error + dataframe" where
  "drop_duplicates df =
     (if ''job_org_id'' \<notin> set (columns df) then Inl (KeyError ''job_org_id'')
      else if ''job_cluster_id'' \<notin> set (columns df) then Inl (KeyError ''job_cluster_id'')
      else Inr (df\<lparr>rows := keep_first cluster_key (rows df)\<rparr>))"

text \<open>
  \<^verbatim>\<open>df_unique_clusters\<close> of \<^verbatim>\<open>get_cluster_compliance_summary\<close>, from the copy after
  \<^verbatim>\<open>is_compliant\<close> has been made a lowercase string.
\<close>

definition unique_clusters :: "dataframe \<Rightarrow> error + dataframe" where
  "unique_clusters df_clusters =
     (case sort_values_descending ''job_created_date'' df_clusters of
        Inl e \<Rightarrow> Inl e
      | Inr df_clusters_sorted \<Rightarrow> drop_duplicates df_clusters_sorted)"

definition count_compliant :: "string \<Rightarrow> dataframe \<Rightarrow> nat" where
  "count_compliant v df = length (filter (\<lambda>r. cell_of r ''is_compliant'' = PyStr v) (rows df))"

text \<open>The numbers of the report over \<^verbatim>\<open>df_unique_clusters\<close>.\<close>

definition summarize_clusters :: "dataframe \<Rightarrow> compliance_summary" where
  "summarize_clusters df_unique_clusters =
     (let compliant = count_compliant ''true'' df_unique_clusters;
          non_compliant = count_compliant ''false'' df_unique_clusters;
          total = length (rows df_unique_clusters);
          sample_cols = filter (\<lambda>c. c \<in> set (columns df_unique_clusters))
            [''job_org_id'', ''job_cluster_id'', ''tower_version'', ''cluster_url'']
      in \<lparr>total_clusters = total,
          compliant_count = compliant,
          non_compliant_count = non_compliant,
          compliance_rate =
            (if total > 0 then Some (of_nat compliant / of_nat total) else None),
          non_compliant_sample =
            (if non_compliant > 0
             then Some (sample_cols, project sample_cols
                    (head 3 (filter (\<lambda>r. cell_of r ''is_compliant'' = PyStr ''false'')
                       (rows df_unique_clusters))))
             else None)\<rparr>)"

definition missing_is_compliant :: string where
  "missing_is_compliant =
     ''Missing '' @ quoted ''is_compliant'' @
     '' column in combined data for compliance analysis. '' @
     ''Check query in get_telesense_data.py.''"

text \<open>
  \<^verbatim>\<open>df_clusters['is_compliant'].astype(str).str.lower()\<close>, and the store after the result
  is assigned to the column.
\<close>

definition lowered :: "dataframe \<Rightarrow> cell list" where
  "lowered df =
     map (\<lambda>c. PyStr (lower (py_str c))) (map (\<lambda>r. cell_of r ''is_compliant'') (rows df))"

definition normalize_is_compliant :: "store \<Rightarrow> addr \<Rightarrow> store" where
  "normalize_is_compliant h a = store_setitem h a ''is_compliant'' (lowered (deref h a))"

definition get_cluster_compliance_summary :: "store \<Rightarrow> (error + report) \<times> store" where
  "get_cluster_compliance_summary h =
     (if df_empty (deref h df_combined_telemetry)
      then (Inr (Message
              ''No combined telemetry data available to analyze for cluster compliance.''), h)
      else
        let (df_clusters, h1) = copy h df_combined_telemetry
        in if ''is_compliant'' \<notin> set (columns (deref h1 df_clusters))
           then (Inr (Message missing_is_compliant), h1)
           else
             let h2 = normalize_is_compliant h1 df_clusters
             in case unique_clusters (deref h2 df_clusters) of
                  Inl e \<Rightarrow> (Inl e, h2)
                | Inr df_unique_clusters \<Rightarrow>
                    (Inr (ClusterCompliance (summarize_clusters df_unique_clusters)), h2))"

text \<open>
  For stating what the sort does: a value of \<^verbatim>\<open>job_created_date\<close> is not later than
  another when it is null, or both are strings or both are numbers and it is not the
  greater one.
\<close>

definition not_later :: "cell \<Rightarrow> cell \<Rightarrow> bool" where
  "not_later a b \<longleftrightarrow>
     isna a \<or> (is_str a \<and> is_str b \<and> py_str a \<le> py_str b)
       \<or> (is_number a \<and> is_number b \<and> number_of a \<le> number_of b)"

section \<open>The extractor\<close>

text \<open>
  \<^verbatim>\<open>Telesense_data.py\<close> talks to the warehouse and to the file system. The world holds what
  the claims are about: the connections that are open, the lines printed, and the files by
  path. What the warehouse and the file system answer during a run is given from outside:
  the connection is refused, or it is made and the query yields some chunks and then ends
  or fails; the file cannot be opened, or the dump fails after part of the text is on disk,
  or it goes through. Failures are Python exceptions of class \<^verbatim>\<open>Exception\<close>, and closing a
  connection does not fail.
\<close>

record world =
  open_connections :: nat
  stdout :: "string list"
  files :: "string \<rightharpoonup> string"

datatype warehouse =
    ConnectFails string
  | QueryFails "dataframe list" string
  | QueryEnds "dataframe list"

datatype disk = OpenFails string | DumpFails string string | DumpEnds

record structured_entry =
  table_name :: string
  description :: string
  data_schema :: "(string \<times> string) list"
  data_records :: "row list"

definition print :: "string \<Rightarrow> world \<Rightarrow> world" where
  "print line w = w\<lparr>stdout := stdout w @ [line]\<rparr>"

fun error_text :: "error \<Rightarrow> string" where
  "error_text (KeyError k) = k"
| "error_text (Exception m) = m"
| "error_text TypeError = ''TypeError''"
| "error_text ValueError = ''ValueError''"
| "error_text OverflowError = ''OverflowError''"

text \<open>\<^verbatim>\<open>pd.DataFrame()\<close>.\<close>

definition empty_frame :: dataframe where
  "empty_frame = \<lparr>columns = [], rows = []\<rparr>"

text \<open>\<^verbatim>\<open>pd.concat(all_chunks, ignore_index=True)\<close>.\<close>

definition concat_frames :: "dataframe list \<Rightarrow> dataframe" where
  "concat_frames chunks =
     \<lparr>columns = rev (remdups (rev (concat (map columns chunks)))),
      rows = concat (map rows chunks)\<rparr>"

text \<open>The loop over the chunks: each one is appended and reported.\<close>

fun fetch_chunks :: "nat \<Rightarrow> dataframe list \<Rightarrow> world \<Rightarrow> world" where
  "fetch_chunks i [] w = w"
| "fetch_chunks i (chunk # chunks) w =
     fetch_chunks (Suc i) chunks
       (print (''  Fetched chunk '' @ show_nat (Suc i) @ '': '' @
               show_nat (length (rows chunk)) @ '' rows.'') w)"

text \<open>
  The \<^verbatim>\<open>try\<close> block of \<^verbatim>\<open>fetch_data_from_redshift\<close>: whether \<^verbatim>\<open>conn\<close> is bound to a
  connection when the block is left, the frame returned or the exception raised, and the
  world.
\<close>

definition fetch_try ::
  "warehouse \<Rightarrow> string \<Rightarrow> nat \<Rightarrow> world \<Rightarrow> bool \<times> (error + dataframe) \<times> world" where
  "fetch_try db tname chunk_size w =
     (case db of
        ConnectFails m \<Rightarrow> (False, Inl (Exception m), w)
      | QueryFails chunks m \<Rightarrow>
          (let w1 = w\<lparr>open_connections := Suc (open_connections w)\<rparr>;
               w2 = print (''Fetching data for '' @ quoted tname @ '' in chunks of '' @
                           show_nat chunk_size @ ''...'') w1
           in (True, Inl (Exception m), fetch_chunks 0 chunks w2))
      | QueryEnds chunks \<Rightarrow>
          (let w1 = w\<lparr>open_connections := Suc (open_connections w)\<rparr>;
               w2 = print (''Fetching data for '' @ quoted tname @ '' in chunks of '' @
                           show_nat chunk_size @ ''...'') w1;
               w3 = fetch_chunks 0 chunks w2
           in if chunks \<noteq> [] then (True, Inr (concat_frames chunks), w3)
              else (True, Inr empty_frame,
                    print (''No data fetched for '' @ quoted tname @ ''.'') w3)))"

text \<open>
  \<^verbatim>\<open>fetch_data_from_redshift\<close>: the \<^verbatim>\<open>except Exception\<close> clause turns an exception of the
  block into a printed line and an empty frame, and the \<^verbatim>\<open>finally\<close> clause closes the
  connection when \<^verbatim>\<open>conn\<close> is bound to one.
\<close>

definition fetch_data_from_redshift ::
  "warehouse \<Rightarrow> string \<Rightarrow> nat \<Rightarrow> world \<Rightarrow> (error + dataframe) \<times> world" where
  "fetch_data_from_redshift db tname chunk_size w =
     (let (conn, tried, w1) = fetch_try db tname chunk_size w;
          (result, w2) =
            (case tried of
               Inl e \<Rightarrow>
                 (Inr empty_frame,
                  print (''Error fetching data for '' @ quoted tname @ '': '' @ error_text e) w1)
             | Inr df \<Rightarrow> (Inr df, w1));
          w3 = (if conn then w2\<lparr>open_connections := open_connections w2 - 1\<rparr> else w2)
      in (result, w3))"

text \<open>
  The write of one snapshot: \<^verbatim>\<open>open(output_filename, 'w')\<close> empties the file, and
  \<^verbatim>\<open>json.dump\<close> fills it. An exception of either is caught and printed. The text that
  \<^verbatim>\<open>json.dump\<close> produces is the parameter \<open>dump\<close>.
\<close>

definition save_entry ::
  "(structured_entry \<Rightarrow> string) \<Rightarrow> disk \<Rightarrow> string \<Rightarrow> string \<Rightarrow> structured_entry \<Rightarrow> world \<Rightarrow> world" where
  "save_entry dump fs table_key output_filename entry w =
     (case fs of
        OpenFails m \<Rightarrow>
          print (''Error saving data for '' @ quoted table_key @ '' to file: '' @ m) w
      | DumpFails partial m \<Rightarrow>
          print (''Error saving data for '' @ quoted table_key @ '' to file: '' @ m)
            (w\<lparr>files := (files w)(output_filename \<mapsto> partial)\<rparr>)
      | DumpEnds \<Rightarrow>
          print (''Saved data for '' @ quoted table_key @ '' to '' @
                 quoted output_filename @ '' successfully.'')
            (w\<lparr>files := (files w)(output_filename \<mapsto> dump entry)\<rparr>))"

text \<open>
  The body of the loop of the main block for one entry of \<^verbatim>\<open>TABLE_QUERIES\<close>. The name that
  pandas gives to the type of a column is the parameter \<open>dtype\<close>.
\<close>

definition process_query ::
  "(cell list \<Rightarrow> string) \<Rightarrow> (structured_entry \<Rightarrow> string) \<Rightarrow> (string \<Rightarrow> warehouse) \<Rightarrow>
   (string \<Rightarrow> disk) \<Rightarrow> string \<Rightarrow> string \<times> string \<Rightarrow> world \<Rightarrow> (error + unit) \<times> world" where
  "process_query dtype dump db fs output_dir item w =
     (let (table_key, details) = item;
          w1 = print (''--- Processing query: '' @ table_key @ '' ---'') w
      in case fetch_data_from_redshift (db table_key) table_key 50000 w1 of
           (Inl e, w2) \<Rightarrow> (Inl e, w2)
         | (Inr df, w2) \<Rightarrow>
             if \<not> df_empty df
             then
               let w3 = print (''Finished fetching all '' @ show_nat (length (rows df)) @
                               '' rows for '' @ quoted table_key @ ''.'') w2;
                   entry = \<lparr>table_name = table_key,
                            description = details,
                            data_schema =
                              map (\<lambda>col. (col, dtype (map (\<lambda>r. cell_of r col) (rows df))))
                                (columns df),
                            data_records = rows df\<rparr>;
                   output_filename = output_dir @ ''/'' @ table_key @ ''_data.json''
               in (Inr (), save_entry dump (fs output_filename) table_key output_filename entry w3)
             else (Inr (), print (''No data fetched for '' @ quoted table_key @
                     '' or an error occurred. Skipping file creation.'') w2))"

text \<open>The loop: an exception that leaves the body ends the run.\<close>

fun process_queries ::
  "(cell list \<Rightarrow> string) \<Rightarrow> (structured_entry \<Rightarrow> string) \<Rightarrow> (string \<Rightarrow> warehouse) \<Rightarrow>
   (string \<Rightarrow> disk) \<Rightarrow> string \<Rightarrow> (string \<times> string) list \<Rightarrow> world \<Rightarrow> (error + unit) \<times> world" where
  "process_queries dtype dump db fs output_dir [] w = (Inr (), w)"
| "process_queries dtype dump db fs output_dir (item # items) w =
     (case process_query dtype dump db fs output_dir item w of
        (Inl e, w1) \<Rightarrow> (Inl e, w1)
      | (Inr u, w1) \<Rightarrow> process_queries dtype dump db fs output_dir items w1)"

text \<open>\<^verbatim>\<open>TABLE_QUERIES\<close>: the key of each query with its description.\<close>

definition TABLE_QUERIES :: "(string \<times> string) list" where
  "TABLE_QUERIES =
     [(''ansible_all_telemetry_combined_reliable'',
       ''Comprehensive, denormalized Ansible telemetry data: job execution, cluster, '' @
       ''host, modules, Lightspeed, and entitlements.'')]"

text \<open>
  The main block. \<^verbatim>\<open>os.makedirs(output_dir, exist_ok=True)\<close> writes no file; when it fails
  (\<open>makedirs\<close> holds the message) its exception ends the run.
\<close>

definition main ::
  "(cell list \<Rightarrow> string) \<Rightarrow> (structured_entry \<Rightarrow> string) \<Rightarrow> string option \<Rightarrow>
   (string \<Rightarrow> warehouse) \<Rightarrow> (string \<Rightarrow> disk) \<Rightarrow> world \<Rightarrow> (error + unit) \<times> world" where
  "main dtype dump makedirs db fs w =
     (let output_dir = ''telemetry_json_output''
      in case makedirs of
           Some m \<Rightarrow> (Inl (Exception m), w)
         | None \<Rightarrow>
             (let w1 = print ''Starting Redshift data extraction...'' w;
                  w2 = print (''Output will be saved to '' @ quoted output_dir @ '' directory.'') w1
              in case process_queries dtype dump db fs output_dir TABLE_QUERIES w2 of
                   (Inl e, w3) \<Rightarrow> (Inl e, w3)
                 | (Inr u, w3) \<Rightarrow> (Inr (), print ''Data extraction process complete.'' w3)))"

section \<open>Example inputs\<close>

text \<open>
  Readings of text for the examples. In a column of integers \<^verbatim>\<open>pd.to_datetime\<close> reads a
  value as nanoseconds since 1970-01-01, the day 719162 days after 0001-01-01, and the
  column has no zone. A string of
  decimal digits is read by \<^verbatim>\<open>pd.to_numeric\<close> as that number; the examples hold no other
  numeric string.
\<close>

definition epoch :: int where
  "epoch = 719162 * ns_per_day"

definition read_epoch_ns :: "cell list \<Rightarrow> reading" where
  "read_epoch_ns cs = Naive (\<lambda>c. case c of PyInt n \<Rightarrow> Some (epoch + n) | _ \<Rightarrow> None)"

definition read_decimal :: "string \<Rightarrow> int option" where
  "read_decimal s =
     (if s \<noteq> [] \<and> (\<forall>c \<in> set s. 48 \<le> (of_char c :: nat) \<and> (of_char c :: nat) \<le> 57)
      then Some (foldl (\<lambda>a c. 10 * a + (int (of_char c) - 48)) 0 s) else None)"

definition table_without_module_name :: dataframe where
  "table_without_module_name =
     DataFrame [[(''collection_name'', PyStr ''A''), (''module_invocation_count'', PyInt 5)]]"

text \<open>
  A run of the extractor against a warehouse that refuses the connection, with a snapshot
  already on disk.
\<close>

definition refusing_warehouse :: "string \<Rightarrow> warehouse" where
  "refusing_warehouse key = ConnectFails ''connection refused''"

definition working_disk :: "string \<Rightarrow> disk" where
  "working_disk path = DumpEnds"

definition dtype_object :: "cell list \<Rightarrow> string" where
  "dtype_object cs = ''object''"

definition dump_table_name :: "structured_entry \<Rightarrow> string" where
  "dump_table_name entry = table_name entry"

definition world_with_snapshot :: world where
  "world_with_snapshot =
     \<lparr>open_connections = 0, stdout = [],
      files = [''telemetry_json_output/ansible_all_telemetry_combined_reliable_data.json''
                 \<mapsto> ''{}'']\<rparr>"

text \<open>Loaded tables of one record each.\<close>

definition table_without_timestamp :: dataframe where
  "table_without_timestamp = DataFrame [[(''job_id'', PyInt 1), (''job_status'', PyStr ''successful'')]]"

definition table_without_created_date :: dataframe where
  "table_without_created_date =
     DataFrame [[(''job_org_id'', PyInt 1), (''job_cluster_id'', PyInt 9), (''is_compliant'', PyBool True)]]"

definition table_with_null_module :: dataframe where
  "table_with_null_module =
     DataFrame [[(''collection_name'', PyStr ''A''), (''module_name'', PyNone),
                 (''module_invocation_count'', PyInt 5)]]"

definition table_one_job :: dataframe where
  "table_one_job =
     DataFrame [[(''job_created_timestamp'', PyInt (19838 * ns_per_day)),
                 (''job_status'', PyStr ''successful'')]]"

text \<open>
  Two rows for one cluster; two clusters of one organisation, one of them with two rows; and
  two clusters of which one has a null compliance flag.
\<close>

definition two_rows_one_cluster :: dataframe where
  "two_rows_one_cluster = DataFrame
     [[(''job_org_id'', PyInt 1), (''job_cluster_id'', PyInt 9),
       (''job_created_date'', PyStr ''2024-01-01''), (''is_compliant'', PyBool False)],
      [(''job_org_id'', PyInt 1), (''job_cluster_id'', PyInt 9),
       (''job_created_date'', PyStr ''2024-06-01''), (''is_compliant'', PyBool True)]]"

definition clusters_with_null_flag :: dataframe where
  "clusters_with_null_flag = DataFrame
     [[(''job_org_id'', PyInt 1), (''job_cluster_id'', PyInt 9),
       (''job_created_date'', PyStr ''2024-06-01''), (''is_compliant'', PyNone)],
      [(''job_org_id'', PyInt 2), (''job_cluster_id'', PyInt 3),
       (''job_created_date'', PyStr ''2024-06-01''), (''is_compliant'', PyBool True)]]"

definition two_clusters_one_org :: dataframe where
  "two_clusters_one_org = DataFrame
     [[(''job_org_id'', PyInt 1), (''job_cluster_id'', PyInt 9),
       (''job_created_date'', PyStr ''2024-01-01''), (''is_compliant'', PyBool False)],
      [(''job_org_id'', PyInt 1), (''job_cluster_id'', PyInt 9),
       (''job_created_date'', PyStr ''2024-06-01''), (''is_compliant'', PyBool True)],
      [(''job_org_id'', PyInt 1), (''job_cluster_id'', PyInt 7),
       (''job_created_date'', PyStr ''2024-03-01''), (''is_compliant'', PyBool False)]]"


section \<open>The store and the copies\<close>

lemma deref_fresh: "deref (h @ [df]) (length h) = df"
  by (simp add: deref_def)

lemma store_setitem_fresh:
  "store_setitem (h @ [df]) (length h) c vs = h @ [setitem df c vs]"
  by (simp add: store_setitem_def deref_def)

lemma copy_eq: "copy h a = (length h, h @ [deref h a])"
  by (simp add: copy_def)

text \<open>Each report leaves the store as it was, or with its one copy added at the end.\<close>

lemma jobs_store:
  "snd (get_jobs_run_summary parse now n h) = h \<or>
   (\<exists>df. snd (get_jobs_run_summary parse now n h) = h @ [df])"
  by (auto simp: get_jobs_run_summary_def copy_eq store_setitem_fresh deref_fresh Let_def
      split: sum.splits)

lemma modules_store:
  "snd (get_top_modules_used numeric n h) = h \<or>
   (\<exists>df. snd (get_top_modules_used numeric n h) = h @ [df])"
  by (auto simp: get_top_modules_used_def copy_eq store_setitem_fresh deref_fresh Let_def
      split: sum.splits)

lemma compliance_store:
  "snd (get_cluster_compliance_summary h) = h \<or>
   (\<exists>df. snd (get_cluster_compliance_summary h) = h @ [df])"
  by (auto simp: get_cluster_compliance_summary_def normalize_is_compliant_def copy_eq
      store_setitem_fresh deref_fresh Let_def split: sum.splits)

lemma modules_missing:
  "''module_name'' \<notin> set (columns (deref h df_combined_telemetry)) \<Longrightarrow>
   \<exists>s. fst (get_top_modules_used numeric n h) = Inr (Message s)"
  by (auto simp: get_top_modules_used_def copy_eq store_setitem_fresh deref_fresh Let_def
      split: sum.splits)

lemma grown_keeps_old:
  "h' = h \<or> (\<exists>df. h' = h @ [df]) \<Longrightarrow> take (length h) h' = h"
  by auto

lemma grown_keeps_global:
  "h \<noteq> [] \<Longrightarrow> h' = h \<or> (\<exists>df. h' = h @ [df]) \<Longrightarrow>
   deref h' df_combined_telemetry = deref h df_combined_telemetry"
  by (auto simp: deref_def df_combined_telemetry_def nth_append)

text \<open>
  C8. In a store that holds the loaded table, a call of any of the three report functions
  leaves the frame bound to \<^verbatim>\<open>df_combined_telemetry\<close> as it was, whether the call returns
  or raises; indeed every frame that existed before the call is unchanged, the function
  having written to its own copy only. And when the loaded table has no column
  \<^verbatim>\<open>module_name\<close>, the module report returns a message.
\<close>

theorem reports_leave_loaded_table_unchanged:
  assumes "h \<noteq> []"
  shows "deref (snd (get_jobs_run_summary parse now n_days h)) df_combined_telemetry
           = deref h df_combined_telemetry
       \<and> deref (snd (get_top_modules_used numeric top_n h)) df_combined_telemetry
           = deref h df_combined_telemetry
       \<and> deref (snd (get_cluster_compliance_summary h)) df_combined_telemetry
           = deref h df_combined_telemetry
       \<and> take (length h) (snd (get_jobs_run_summary parse now n_days h)) = h
       \<and> take (length h) (snd (get_top_modules_used numeric top_n h)) = h
       \<and> take (length h) (snd (get_cluster_compliance_summary h)) = h
       \<and> (''module_name'' \<notin> set (columns (deref h df_combined_telemetry)) \<longrightarrow>
            (\<exists>s. fst (get_top_modules_used numeric top_n h) = Inr (Message s)))"
  using assms grown_keeps_global [OF assms jobs_store] grown_keeps_global [OF assms modules_store]
    grown_keeps_global [OF assms compliance_store]
    grown_keeps_old [OF jobs_store] grown_keeps_old [OF modules_store]
    grown_keeps_old [OF compliance_store] modules_missing
  by blast

theorem reports_leave_loaded_table_unchanged_witness:
  "loaded table_without_module_name \<noteq> []
   \<and> ''module_name'' \<notin> set (columns (deref (loaded table_without_module_name) df_combined_telemetry))
   \<and> deref (snd (get_top_modules_used read_decimal 10 (loaded table_without_module_name)))
        df_combined_telemetry = table_without_module_name
   \<and> (\<exists>s. fst (get_top_modules_used read_decimal 10 (loaded table_without_module_name))
          = Inr (Message s))"
proof -
  have ne: "loaded table_without_module_name \<noteq> []"
    by (simp add: loaded_def)
  have miss: "''module_name'' \<notin> set (columns (deref (loaded table_without_module_name) df_combined_telemetry))"
    by (simp add: loaded_def table_without_module_name_def DataFrame_def deref_def
        df_combined_telemetry_def)
  have same: "deref (loaded table_without_module_name) df_combined_telemetry = table_without_module_name"
    by (simp add: loaded_def deref_def df_combined_telemetry_def)
  show ?thesis
    using reports_leave_loaded_table_unchanged [OF ne, of read_epoch_ns 0 30 read_decimal 10]
      ne miss same by simp
qed

section \<open>The extractor: failures and the snapshot file\<close>

lemma print_keeps [simp]:
  "open_connections (print l w) = open_connections w" "files (print l w) = files w"
  by (simp_all add: print_def)

lemma fetch_chunks_keeps [simp]:
  "open_connections (fetch_chunks i cs w) = open_connections w"
  "files (fetch_chunks i cs w) = files w"
  by (induction i cs w rule: fetch_chunks.induct) simp_all

lemma fetch_files [simp]: "files (snd (fetch_data_from_redshift db tname n w)) = files w"
  by (cases db) (simp_all add: fetch_data_from_redshift_def fetch_try_def Let_def)

lemma fetch_frame:
  "fst (fetch_data_from_redshift db tname n w) =
     Inr (case db of QueryEnds cs \<Rightarrow> if cs \<noteq> [] then concat_frames cs else empty_frame
          | _ \<Rightarrow> empty_frame)"
  by (cases db) (simp_all add: fetch_data_from_redshift_def fetch_try_def Let_def)

text \<open>
  C7. \<^verbatim>\<open>fetch_data_from_redshift\<close> returns a frame whatever the warehouse does: no exception
  leaves it. When the connection is refused, or the query fails after any number of chunks,
  the error is printed and the frame returned is the empty one. A connection that was
  opened (the count goes up by one inside the \<^verbatim>\<open>try\<close> block) is closed again when the
  function returns: the number of open connections is what it was before the call.
\<close>

theorem fetch_returns_and_closes:
  "(\<exists>df. fst (fetch_data_from_redshift db tname n w) = Inr df)
   \<and> open_connections (snd (fetch_data_from_redshift db tname n w)) = open_connections w
   \<and> open_connections (snd (snd (fetch_try (QueryFails cs m) tname n w)))
        = Suc (open_connections w)
   \<and> open_connections (snd (snd (fetch_try (QueryEnds cs) tname n w)))
        = Suc (open_connections w)
   \<and> fetch_data_from_redshift (ConnectFails m) tname n w
        = (Inr empty_frame, print (''Error fetching data for '' @ quoted tname @ '': '' @ m) w)
   \<and> fst (fetch_data_from_redshift (QueryFails cs m) tname n w) = Inr empty_frame
   \<and> last (stdout (snd (fetch_data_from_redshift (QueryFails cs m) tname n w)))
        = ''Error fetching data for '' @ quoted tname @ '': '' @ m"
proof -
  have "\<exists>df. fst (fetch_data_from_redshift db tname n w) = Inr df"
    by (simp add: fetch_frame)
  moreover have "open_connections (snd (fetch_data_from_redshift db tname n w)) = open_connections w"
    by (cases db) (simp_all add: fetch_data_from_redshift_def fetch_try_def Let_def)
  moreover have "last (stdout (snd (fetch_data_from_redshift (QueryFails cs m) tname n w)))
        = ''Error fetching data for '' @ quoted tname @ '': '' @ m"
    by (simp add: fetch_data_from_redshift_def fetch_try_def Let_def print_def)
  ultimately show ?thesis
    by (simp add: fetch_data_from_redshift_def fetch_try_def Let_def)
qed

lemma process_query_files:
  assumes "fst (fetch_data_from_redshift (db (fst item)) (fst item) 50000 w0) = Inr df"
    and "rows df = []"
    and "process_query dtype dump db fs output_dir item w = (r, w')"
  shows "files w' = files w"
proof -
  obtain k d where item: "item = (k, d)" by (cases item)
  define w1 where "w1 = print (''--- Processing query: '' @ k @ '' ---'') w"
  obtain r2 w2 where f: "fetch_data_from_redshift (db k) k 50000 w1 = (r2, w2)"
    by (cases "fetch_data_from_redshift (db k) k 50000 w1")
  have "fst (fetch_data_from_redshift (db k) k 50000 w1) = Inr df"
    using assms(1) by (simp add: fetch_frame item)
  then have r2: "r2 = Inr df" using f by simp
  have "files (snd (fetch_data_from_redshift (db k) k 50000 w1)) = files w1"
    by (rule fetch_files)
  then have "files w2 = files w1" using f by simp
  then have w2: "files w2 = files w" by (simp add: w1_def)
  have "process_query dtype dump db fs output_dir item w =
      (case fetch_data_from_redshift (db k) k 50000 w1 of
         (Inl e, w2) \<Rightarrow> (Inl e, w2)
       | (Inr df, w2) \<Rightarrow>
           if \<not> df_empty df
           then (Inr (), save_entry dump (fs (output_dir @ ''/'' @ k @ ''_data.json'')) k
                   (output_dir @ ''/'' @ k @ ''_data.json'')
                   \<lparr>table_name = k, description = d,
                    data_schema = map (\<lambda>col. (col, dtype (map (\<lambda>r. cell_of r col) (rows df))))
                                   (columns df),
                    data_records = rows df\<rparr>
                   (print (''Finished fetching all '' @ show_nat (length (rows df)) @
                               '' rows for '' @ quoted k @ ''.'') w2))
           else (Inr (), print (''No data fetched for '' @ quoted k @
                     '' or an error occurred. Skipping file creation.'') w2))"
    unfolding process_query_def item w1_def Let_def prod.case ..
  then have "process_query dtype dump db fs output_dir item w =
      (Inr (), print (''No data fetched for '' @ quoted k @
                     '' or an error occurred. Skipping file creation.'') w2)"
    unfolding f r2 using assms(2) by (simp add: df_empty_def)
  then show ?thesis using assms(3) w2 by auto
qed

lemma process_queries_files:
  assumes "\<And>item. item \<in> set items \<Longrightarrow>
             \<exists>w0 df. fst (fetch_data_from_redshift (db (fst item)) (fst item) 50000 w0) = Inr df
                \<and> rows df = []"
    and "process_queries dtype dump db fs output_dir items w = (r, w')"
  shows "files w' = files w"
  using assms
proof (induction items arbitrary: w)
  case Nil
  then show ?case by simp
next
  case (Cons item items)
  obtain r1 w1 where pq: "process_query dtype dump db fs output_dir item w = (r1, w1)"
    by (cases "process_query dtype dump db fs output_dir item w")
  obtain w0 df where "fst (fetch_data_from_redshift (db (fst item)) (fst item) 50000 w0) = Inr df"
      "rows df = []"
    using Cons.prems(1) [of item] by auto
  then have w1: "files w1 = files w"
    using pq by (rule process_query_files)
  show ?case
  proof (cases r1)
    case (Inl e)
    then show ?thesis using pq w1 Cons.prems(2) by simp
  next
    case (Inr u)
    then have "process_queries dtype dump db fs output_dir items w1 = (r, w')"
      using pq Cons.prems(2) by simp
    then have "files w' = files w1"
      using Cons.IH Cons.prems(1) by simp
    then show ?thesis using w1 by simp
  qed
qed

lemma only_query:
  "item \<in> set TABLE_QUERIES \<Longrightarrow> fst item = ''ansible_all_telemetry_combined_reliable''"
  by (simp add: TABLE_QUERIES_def)

text \<open>
  C6. When the fetch of the configured query yields a frame without rows, be it from an
  empty result or from the error path, a run of the main block leaves every file as it
  was. Read the other way: a run that changes a file has fetched at least one row.
\<close>

theorem no_rows_no_snapshot_write:
  assumes "fst (fetch_data_from_redshift (db ''ansible_all_telemetry_combined_reliable'')
                  ''ansible_all_telemetry_combined_reliable'' 50000 w0) = Inr df"
    and "rows df = []"
  shows "files (snd (main dtype dump makedirs db fs w)) = files w"
proof (cases makedirs)
  case (Some m)
  then show ?thesis by (simp add: main_def)
next
  case None
  have each: "\<exists>w0 df. fst (fetch_data_from_redshift (db (fst item)) (fst item) 50000 w0) = Inr df
                \<and> rows df = []" if "item \<in> set TABLE_QUERIES" for item
    using assms only_query [OF that] by auto
  have run: "files w' = files v"
    if "process_queries dtype dump db fs ''telemetry_json_output'' TABLE_QUERIES v = (r, w')"
    for v r w'
    using each that by (rule process_queries_files)
  show ?thesis
    using None by (auto simp: main_def Let_def split: prod.splits sum.splits dest!: run)
qed

theorem no_rows_no_snapshot_write_witness:
  "fst (fetch_data_from_redshift (refusing_warehouse ''ansible_all_telemetry_combined_reliable'')
          ''ansible_all_telemetry_combined_reliable'' 50000 world_with_snapshot) = Inr empty_frame
   \<and> rows empty_frame = []
   \<and> files (snd (main dtype_object dump_table_name None refusing_warehouse working_disk
                    world_with_snapshot)) = files world_with_snapshot"
proof -
  have a: "fst (fetch_data_from_redshift (refusing_warehouse ''ansible_all_telemetry_combined_reliable'')
          ''ansible_all_telemetry_combined_reliable'' 50000 world_with_snapshot) = Inr empty_frame"
    by (simp add: fetch_frame refusing_warehouse_def)
  have b: "rows empty_frame = []" by (simp add: empty_frame_def)
  have "files (snd (main dtype_object dump_table_name None refusing_warehouse working_disk
                    world_with_snapshot)) = files world_with_snapshot"
    using a b by (rule no_rows_no_snapshot_write)
  then show ?thesis using a b by blast
qed

section \<open>The reports: missing columns and null names\<close>

lemma deref_loaded [simp]: "deref (loaded df) df_combined_telemetry = df"
  by (simp add: loaded_def deref_def df_combined_telemetry_def)

text \<open>
  C1 says that a report whose table lacks a column it needs returns an error string and
  never raises. The module report does so, and the compliance report does so for
  \<^verbatim>\<open>is_compliant\<close>. But the job summary reads \<^verbatim>\<open>job_created_timestamp\<close> without a
  check, and the compliance report sorts by \<^verbatim>\<open>job_created_date\<close> without one: on a loaded
  table of one record that lacks the column, each of the two raises KeyError.
\<close>

theorem reports_raise_on_missing_column:
  "fst (get_jobs_run_summary parse now n_days (loaded table_without_timestamp))
     = Inl (KeyError ''job_created_timestamp'')
   \<and> fst (get_cluster_compliance_summary (loaded table_without_created_date))
     = Inl (KeyError ''job_created_date'')"
  by (simp add: get_jobs_run_summary_def get_cluster_compliance_summary_def
      table_without_timestamp_def table_without_created_date_def DataFrame_def df_empty_def
      copy_def loaded_def deref_def df_combined_telemetry_def getitem_def
      normalize_is_compliant_def store_setitem_def setitem_def lowered_def unique_clusters_def
      sort_values_descending_def)

text \<open>
  C5 says that a row whose module name is null is left out of the grouping. The mask asks
  \<^verbatim>\<open>notna()\<close> after \<^verbatim>\<open>astype(str)\<close> has turned the null into the string \<^verbatim>\<open>None\<close>, so
  the row stays: a table of one record with a null module name is ranked under the module
  name \<^verbatim>\<open>None\<close>, whatever \<^verbatim>\<open>pd.to_numeric\<close> reads.
\<close>

theorem null_module_name_is_ranked:
  "fst (get_top_modules_used numeric 10 (loaded table_with_null_module))
     = Inr (TopModules 10 [(''A'', ''None'', 5)])"
  by (simp add: get_top_modules_used_def 
      table_with_null_module_def DataFrame_def df_empty_def
      copy_def loaded_def deref_def df_combined_telemetry_def 
      store_setitem_def setitem_def astype_str_def cell_of_def fillna0_def clean_module_def
      top_modules_def groupby_sum_def group_key_def invocations_def sort_descending_def head_def Let_def)

theorem null_module_name_is_ranked_witness:
  "fst (get_top_modules_used read_decimal 10 (loaded table_with_null_module))
     = Inr (TopModules 10 [(''A'', ''None'', 5)])"
  using null_module_name_is_ranked [of read_decimal] .

section \<open>Calling a report twice\<close>

lemma deref_global_grown:
  "h \<noteq> [] \<Longrightarrow> deref (h @ [df]) df_combined_telemetry = deref h df_combined_telemetry"
  by (simp add: deref_def df_combined_telemetry_def nth_append)

lemma jobs_output_cong:
  assumes "h \<noteq> []" "h' \<noteq> []"
    and "deref h' df_combined_telemetry = deref h df_combined_telemetry"
  shows "fst (get_jobs_run_summary parse now n h') = fst (get_jobs_run_summary parse now n h)"
  using assms
  by (simp add: get_jobs_run_summary_def copy_eq store_setitem_fresh deref_fresh Let_def
      split: sum.splits)

lemma modules_output_cong:
  assumes "h \<noteq> []" "h' \<noteq> []"
    and "deref h' df_combined_telemetry = deref h df_combined_telemetry"
  shows "fst (get_top_modules_used numeric k h') = fst (get_top_modules_used numeric k h)"
  using assms
  by (simp add: get_top_modules_used_def copy_eq store_setitem_fresh deref_fresh Let_def)

lemma compliance_output_cong:
  assumes "h \<noteq> []" "h' \<noteq> []"
    and "deref h' df_combined_telemetry = deref h df_combined_telemetry"
  shows "fst (get_cluster_compliance_summary h') = fst (get_cluster_compliance_summary h)"
  using assms
  by (simp add: get_cluster_compliance_summary_def normalize_is_compliant_def copy_eq
      store_setitem_fresh deref_fresh Let_def split: sum.splits)

lemma grown_nonempty: "h \<noteq> [] \<Longrightarrow> h' = h \<or> (\<exists>df. h' = h @ [df]) \<Longrightarrow> h' \<noteq> []"
  by auto

text \<open>
  C9 as stated fails for the job summary: the window ends at \<^verbatim>\<open>datetime.now()\<close>, which each
  call reads anew. With one job in the table, a call at the time of the job reports it, and
  a second call 31 days later, on the same table with the same \<^verbatim>\<open>n_days = 30\<close>, reports
  that there is no job data.
\<close>

theorem job_summary_changes_with_clock:
  "fst (get_jobs_run_summary read_epoch_ns (739031 * ns_per_day) 30
          (snd (get_jobs_run_summary read_epoch_ns (739000 * ns_per_day) 30 (loaded table_one_job))))
   \<noteq> fst (get_jobs_run_summary read_epoch_ns (739000 * ns_per_day) 30 (loaded table_one_job))"
  by (simp add: get_jobs_run_summary_def 
      table_one_job_def DataFrame_def df_empty_def
      copy_def loaded_def deref_def df_combined_telemetry_def getitem_def
      store_setitem_def setitem_def to_datetime_def read_epoch_ns_def epoch_def ns_per_day_def 
      cell_of_def dropna_def timedelta_days_def datetime_sub_def datetime_end_def 
      summarize_jobs_def Let_def)


text \<open>
  C9, amended. A second call of a report function, made in the store that the first call
  left, returns what the first call returned: always for the module report and the
  compliance report, and for the job summary when both calls read the same time from the
  clock.
\<close>

theorem repeated_report_same_output:
  assumes "h \<noteq> []"
  shows "fst (get_jobs_run_summary parse now n_days
                (snd (get_jobs_run_summary parse now n_days h)))
           = fst (get_jobs_run_summary parse now n_days h)
       \<and> fst (get_top_modules_used numeric top_n (snd (get_top_modules_used numeric top_n h)))
           = fst (get_top_modules_used numeric top_n h)
       \<and> fst (get_cluster_compliance_summary (snd (get_cluster_compliance_summary h)))
           = fst (get_cluster_compliance_summary h)"
proof (intro conjI)
  show "fst (get_jobs_run_summary parse now n_days
                (snd (get_jobs_run_summary parse now n_days h)))
           = fst (get_jobs_run_summary parse now n_days h)"
    using assms grown_nonempty [OF assms jobs_store] grown_keeps_global [OF assms jobs_store]
    by (rule jobs_output_cong)
  show "fst (get_top_modules_used numeric top_n (snd (get_top_modules_used numeric top_n h)))
           = fst (get_top_modules_used numeric top_n h)"
    using assms grown_nonempty [OF assms modules_store] grown_keeps_global [OF assms modules_store]
    by (rule modules_output_cong)
  show "fst (get_cluster_compliance_summary (snd (get_cluster_compliance_summary h)))
           = fst (get_cluster_compliance_summary h)"
    using assms grown_nonempty [OF assms compliance_store]
      grown_keeps_global [OF assms compliance_store]
    by (rule compliance_output_cong)
qed

theorem repeated_report_same_output_witness:
  "loaded table_one_job \<noteq> []
   \<and> fst (get_jobs_run_summary read_epoch_ns (739000 * ns_per_day) 30
            (snd (get_jobs_run_summary read_epoch_ns (739000 * ns_per_day) 30
                    (loaded table_one_job))))
       = fst (get_jobs_run_summary read_epoch_ns (739000 * ns_per_day) 30 (loaded table_one_job))"
proof -
  have ne: "loaded table_one_job \<noteq> []" by (simp add: loaded_def)
  show ?thesis
    using repeated_report_same_output [OF ne, of read_epoch_ns "739000 * ns_per_day" 30] ne
    by blast
qed

section \<open>Lists: the first of each key, and descending order\<close>

lemma keep_first_subset: "set (keep_first key xs) \<subseteq> set xs"
  by (induction key xs rule: keep_first.induct) auto

lemma keep_first_keys: "key ` set (keep_first key xs) = key ` set xs"
proof (induction key xs rule: keep_first.induct)
  case (1 key)
  then show ?case by simp
next
  case (2 key x xs)
  have "key ` set (x # xs) = insert (key x) (key ` set (filter (\<lambda>y. key y \<noteq> key x) xs))"
    by auto
  then show ?case using "2" by simp
qed

lemma keep_first_distinct: "distinct (map key (keep_first key xs))"
proof (induction key xs rule: keep_first.induct)
  case (1 key)
  then show ?case by simp
next
  case (2 key x xs)
  have "key x \<notin> key ` set (keep_first key (filter (\<lambda>y. key y \<noteq> key x) xs))"
    unfolding keep_first_keys by auto
  then show ?case using "2" by simp
qed

lemma keep_first_find:
  "r \<in> set (keep_first key xs) \<Longrightarrow> find (\<lambda>y. key y = key r) xs = Some r"
proof (induction key xs rule: keep_first.induct)
  case (1 key)
  then show ?case by simp
next
  case (2 key x xs)
  show ?case
  proof (cases "r = x")
    case True
    then show ?thesis by simp
  next
    case False
    then have r: "r \<in> set (keep_first key (filter (\<lambda>y. key y \<noteq> key x) xs))"
      using "2.prems" by simp
    then have "r \<in> set (filter (\<lambda>y. key y \<noteq> key x) xs)"
      using keep_first_subset by fastforce
    then have ne: "key x \<noteq> key r" by auto
    have "find (\<lambda>y. key y = key r) (filter (\<lambda>y. key y \<noteq> key x) xs) = Some r"
      using "2.IH" r by simp
    moreover have "find (\<lambda>y. key y = key r) (filter (\<lambda>y. key y \<noteq> key x) xs)
        = find (\<lambda>y. key y = key r) xs"
      using ne by (induction xs) auto
    ultimately show ?thesis using ne by simp
  qed
qed

lemma length_keep_first: "length (keep_first key xs) = card (key ` set xs)"
proof -
  have "length (keep_first key xs) = length (map key (keep_first key xs))" by simp
  also have "\<dots> = card (set (map key (keep_first key xs)))"
    using keep_first_distinct [of key xs] by (simp only: distinct_card)
  also have "\<dots> = card (key ` set xs)" by (simp add: keep_first_keys)
  finally show ?thesis .
qed

lemma set_sort_descending: "set (sort_descending f xs) = set xs"
  by (simp add: sort_descending_def)

lemma sorted_sort_descending: "sorted_wrt (\<lambda>a b. f b \<le> f a) (sort_descending f xs)"
proof -
  have "sorted (map f (sort_key f (rev xs)))" by simp
  then have "sorted_wrt (\<lambda>a b. f a \<le> f b) (sort_key f (rev xs))"
    by (simp add: sorted_map)
  then show ?thesis
    by (simp add: sort_descending_def sorted_wrt_rev)
qed

lemma first_is_greatest:
  "sorted_wrt (\<lambda>a b. (f b :: 'k::linorder) \<le> f a) xs \<Longrightarrow> find P xs = Some r \<Longrightarrow> r' \<in> set xs \<Longrightarrow> P r'
   \<Longrightarrow> f r' \<le> f r"
  by (induction xs) (auto split: if_splits)

lemma find_append_Some:
  "find P (xs @ ys) = Some r \<Longrightarrow>
   find P xs = Some r \<or> ((\<forall>x \<in> set xs. \<not> P x) \<and> find P ys = Some r)"
  by (induction xs) (auto split: if_splits)

section \<open>Cluster compliance: one row per cluster\<close>

lemma zip_map_self: "zip xs (map g xs) = map (\<lambda>x. (x, g x)) xs"
  by (induction xs) auto

lemma rows_setitem:
  "rows (setitem df c (map g (rows df))) = map (\<lambda>r. AList.update c (g r) r) (rows df)"
  by (simp add: setitem_def zip_map_self)

lemma columns_setitem_present:
  "c \<in> set (columns df) \<Longrightarrow> columns (setitem df c vs) = columns df"
  by (simp add: setitem_def)

lemma cell_of_update: "cell_of (AList.update c v r) c' = (if c' = c then v else cell_of r c')"
  by (simp add: cell_of_def update_conv')

lemma sort_values_descending_rows:
  assumes "sort_values_descending c df = Inr s"
  shows "set (rows s) = set (rows df)"
    and "columns s = columns df"
    and "find P (rows s) = Some r \<Longrightarrow> r' \<in> set (rows s) \<Longrightarrow> P r'
          \<Longrightarrow> not_later (cell_of r' c) (cell_of r c)"
proof -
  define present where "present = filter (\<lambda>r. \<not> isna (cell_of r c)) (rows df)"
  define missing where "missing = filter (\<lambda>r. isna (cell_of r c)) (rows df)"
  have parts: "set present \<union> set missing = set (rows df)"
    by (auto simp: present_def missing_def)
  consider (str) "\<forall>r \<in> set present. is_str (cell_of r c)"
      "s = df\<lparr>rows := sort_descending (\<lambda>r. py_str (cell_of r c)) present @ missing\<rparr>"
    | (num) "\<forall>r \<in> set present. is_number (cell_of r c)"
      "s = df\<lparr>rows := sort_descending (\<lambda>r. number_of (cell_of r c)) present @ missing\<rparr>"
    using assms unfolding sort_values_descending_def Let_def present_def [symmetric]
      missing_def [symmetric]
    by (auto split: if_splits)
  note cases = this
  show "set (rows s) = set (rows df)"
    using parts by (cases rule: cases) (auto simp: set_sort_descending)
  show "columns s = columns df"
    by (cases rule: cases) auto
  assume f: "find P (rows s) = Some r" and r': "r' \<in> set (rows s)" and P: "P r'"
  show "not_later (cell_of r' c) (cell_of r c)"
  proof (cases "isna (cell_of r' c)")
    case True
    then show ?thesis by (simp add: not_later_def)
  next
    case False
    show ?thesis
    proof (cases rule: cases)
      case str
      let ?f = "\<lambda>r. py_str (cell_of r c)"
      have in_p: "r' \<in> set present"
        using r' False str(2) by (auto simp: set_sort_descending missing_def)
      then have "\<not> (\<forall>x \<in> set (sort_descending ?f present). \<not> P x)"
        using P by (auto simp: set_sort_descending)
      then have fs: "find P (sort_descending ?f present) = Some r"
        using f str(2) find_append_Some [of P "sort_descending ?f present" missing r] by auto
      then have "r \<in> set (sort_descending ?f present)"
        by (auto simp: find_Some_iff)
      then have rp: "r \<in> set present" by (simp add: set_sort_descending)
      have "?f r' \<le> ?f r"
        using sorted_sort_descending fs _ P
        by (rule first_is_greatest) (use in_p in \<open>simp add: set_sort_descending\<close>)
      then show ?thesis
        using str(1) in_p rp by (auto simp: not_later_def)
    next
      case num
      let ?f = "\<lambda>r. number_of (cell_of r c)"
      have in_p: "r' \<in> set present"
        using r' False num(2) by (auto simp: set_sort_descending missing_def)
      then have "\<not> (\<forall>x \<in> set (sort_descending ?f present). \<not> P x)"
        using P by (auto simp: set_sort_descending)
      then have fs: "find P (sort_descending ?f present) = Some r"
        using f num(2) find_append_Some [of P "sort_descending ?f present" missing r] by auto
      then have "r \<in> set (sort_descending ?f present)"
        by (auto simp: find_Some_iff)
      then have rp: "r \<in> set present" by (simp add: set_sort_descending)
      have "?f r' \<le> ?f r"
        using sorted_sort_descending fs _ P
        by (rule first_is_greatest) (use in_p in \<open>simp add: set_sort_descending\<close>)
      then show ?thesis
        using num(1) in_p rp by (auto simp: not_later_def)
    qed
  qed
qed

lemma unique_clusters_rows:
  assumes "unique_clusters df = Inr u"
  shows "columns u = columns df"
    and "distinct (map cluster_key (rows u))"
    and "set (rows u) \<subseteq> set (rows df)"
    and "cluster_key ` set (rows u) = cluster_key ` set (rows df)"
    and "length (rows u) = card (cluster_key ` set (rows df))"
    and "r \<in> set (rows u) \<Longrightarrow> r' \<in> set (rows df) \<Longrightarrow> cluster_key r' = cluster_key r
          \<Longrightarrow> not_later (cell_of r' ''job_created_date'') (cell_of r ''job_created_date'')"
proof -
  obtain s where s: "sort_values_descending ''job_created_date'' df = Inr s"
    and d: "drop_duplicates s = Inr u"
    using assms by (auto simp: unique_clusters_def split: sum.splits)
  have u: "u = s\<lparr>rows := keep_first cluster_key (rows s)\<rparr>"
    using d by (auto simp: drop_duplicates_def split: if_splits)
  have set_s: "set (rows s) = set (rows df)"
    using s by (rule sort_values_descending_rows)
  have cols_s: "columns s = columns df"
    using s by (rule sort_values_descending_rows)
  show "columns u = columns df" using u cols_s by simp
  show "distinct (map cluster_key (rows u))" using u by (simp add: keep_first_distinct)
  show "set (rows u) \<subseteq> set (rows df)" using u set_s keep_first_subset [of cluster_key "rows s"] by simp
  show "cluster_key ` set (rows u) = cluster_key ` set (rows df)"
    using u set_s by (simp add: keep_first_keys)
  show "length (rows u) = card (cluster_key ` set (rows df))"
    using u set_s by (simp add: length_keep_first)
  assume r: "r \<in> set (rows u)" and r': "r' \<in> set (rows df)"
    and k: "cluster_key r' = cluster_key r"
  have "find (\<lambda>y. cluster_key y = cluster_key r) (rows s) = Some r"
    using r u by (simp add: keep_first_find)
  moreover have "r' \<in> set (rows s)" using r' set_s by simp
  ultimately show "not_later (cell_of r' ''job_created_date'') (cell_of r ''job_created_date'')"
    using k sort_values_descending_rows(3) [OF s] by blast
qed

lemma compliance_report_unique:
  assumes "fst (get_cluster_compliance_summary h) = Inr (ClusterCompliance s)"
  shows "\<exists>u. unique_clusters (setitem (deref h df_combined_telemetry) ''is_compliant''
                 (lowered (deref h df_combined_telemetry))) = Inr u
             \<and> s = summarize_clusters u"
  using assms
  by (auto simp: get_cluster_compliance_summary_def normalize_is_compliant_def copy_eq
      store_setitem_fresh deref_fresh Let_def split: sum.splits if_splits)

lemma cluster_key_update:
  "c \<noteq> ''job_org_id'' \<Longrightarrow> c \<noteq> ''job_cluster_id'' \<Longrightarrow>
   cluster_key (AList.update c v r) = cluster_key r"
  by (simp add: cluster_key_def cell_of_update)

lemma rows_normalized:
  "rows (setitem df ''is_compliant'' (lowered df)) =
     map (\<lambda>r. AList.update ''is_compliant''
                 (PyStr (lower (py_str (cell_of r ''is_compliant'')))) r) (rows df)"
proof -
  have "lowered df = map (\<lambda>r. PyStr (lower (py_str (cell_of r ''is_compliant'')))) (rows df)"
    by (simp add: lowered_def)
  then show ?thesis by (simp only: rows_setitem)
qed

lemma cluster_keys_normalized:
  "cluster_key ` set (rows (setitem df ''is_compliant'' (lowered df)))
     = cluster_key ` set (rows df)"
  by (simp add: rows_normalized image_image cluster_key_update)

lemma two_filters:
  assumes "\<And>x. \<not> (P x \<and> Q x)"
  shows "length (filter P xs) + length (filter Q xs) \<le> length xs"
    and "length (filter P xs) + length (filter Q xs) < length xs
           \<longleftrightarrow> (\<exists>x \<in> set xs. \<not> P x \<and> \<not> Q x)"
proof -
  show le: "length (filter P xs) + length (filter Q xs) \<le> length xs" for xs
    using assms by (induction xs) auto
  show "length (filter P xs) + length (filter Q xs) < length xs
           \<longleftrightarrow> (\<exists>x \<in> set xs. \<not> P x \<and> \<not> Q x)"
  proof (induction xs)
    case Nil
    then show ?case by simp
  next
    case (Cons x xs)
    then show ?case using assms le [of xs] by auto
  qed
qed

lemma summarize_clusters_counts:
  "compliant_count (summarize_clusters u) + non_compliant_count (summarize_clusters u)
     \<le> total_clusters (summarize_clusters u)"
  "compliant_count (summarize_clusters u) + non_compliant_count (summarize_clusters u)
     < total_clusters (summarize_clusters u)
   \<longleftrightarrow> (\<exists>r \<in> set (rows u). cell_of r ''is_compliant'' \<noteq> PyStr ''true''
                            \<and> cell_of r ''is_compliant'' \<noteq> PyStr ''false'')"
proof -
  have disj: "\<not> (cell_of x ''is_compliant'' = PyStr ''true''
      \<and> cell_of x ''is_compliant'' = PyStr ''false'')" for x
    by auto
  show "compliant_count (summarize_clusters u) + non_compliant_count (summarize_clusters u)
     \<le> total_clusters (summarize_clusters u)"
    using two_filters(1) [of "\<lambda>r. cell_of r ''is_compliant'' = PyStr ''true''"
        "\<lambda>r. cell_of r ''is_compliant'' = PyStr ''false''" "rows u", OF disj]
    by (simp add: summarize_clusters_def count_compliant_def Let_def)
  show "compliant_count (summarize_clusters u) + non_compliant_count (summarize_clusters u)
     < total_clusters (summarize_clusters u)
   \<longleftrightarrow> (\<exists>r \<in> set (rows u). cell_of r ''is_compliant'' \<noteq> PyStr ''true''
                            \<and> cell_of r ''is_compliant'' \<noteq> PyStr ''false'')"
    using two_filters(2) [of "\<lambda>r. cell_of r ''is_compliant'' = PyStr ''true''"
        "\<lambda>r. cell_of r ''is_compliant'' = PyStr ''false''" "rows u", OF disj]
    by (simp add: summarize_clusters_def count_compliant_def Let_def)
qed


lemma lower_values:
  "lower ''True'' = ''true''" "lower ''False'' = ''false''" "lower ''None'' = ''none''"
  by code_simp+

lemma two_rows_summary:
  "fst (get_cluster_compliance_summary (loaded two_rows_one_cluster)) =
     Inr (ClusterCompliance
       \<lparr>total_clusters = 1, compliant_count = 1, non_compliant_count = 0,
        compliance_rate = Some 1, non_compliant_sample = None\<rparr>)"
  by (simp add: get_cluster_compliance_summary_def two_rows_one_cluster_def DataFrame_def
      df_empty_def copy_def loaded_def deref_def df_combined_telemetry_def
      normalize_is_compliant_def store_setitem_def setitem_def lowered_def lower_values
      cell_of_def unique_clusters_def sort_values_descending_def
      sort_descending_def drop_duplicates_def cluster_key_def summarize_clusters_def
      count_compliant_def Let_def)

lemma null_flag_summary:
  "fst (get_cluster_compliance_summary (loaded clusters_with_null_flag)) =
     Inr (ClusterCompliance
       \<lparr>total_clusters = 2, compliant_count = 1, non_compliant_count = 0,
        compliance_rate = Some (1 / 2), non_compliant_sample = None\<rparr>)"
  by (simp add: get_cluster_compliance_summary_def clusters_with_null_flag_def DataFrame_def
      df_empty_def copy_def loaded_def deref_def df_combined_telemetry_def
      normalize_is_compliant_def store_setitem_def setitem_def lowered_def lower_values
      cell_of_def unique_clusters_def sort_values_descending_def
      sort_descending_def drop_duplicates_def cluster_key_def summarize_clusters_def
      count_compliant_def Let_def)


lemma two_clusters_summary:
  "fst (get_cluster_compliance_summary (loaded two_clusters_one_org)) =
     Inr (ClusterCompliance
       \<lparr>total_clusters = 2, compliant_count = 1, non_compliant_count = 1,
        compliance_rate = Some (1 / 2),
        non_compliant_sample =
          Some ([''job_org_id'', ''job_cluster_id''], [[PyInt 1, PyInt 7]])\<rparr>)"
  by (simp add: get_cluster_compliance_summary_def two_clusters_one_org_def DataFrame_def
      df_empty_def copy_def loaded_def deref_def df_combined_telemetry_def
      normalize_is_compliant_def store_setitem_def setitem_def lowered_def lower_values
      cell_of_def unique_clusters_def sort_values_descending_def
      sort_descending_def drop_duplicates_def cluster_key_def summarize_clusters_def
      count_compliant_def head_def project_def Let_def)

lemma same_cells_same_key:
  "cell_of r1 ''job_org_id'' = cell_of r2 ''job_org_id'' \<Longrightarrow>
   cell_of r1 ''job_cluster_id'' = cell_of r2 ''job_cluster_id'' \<Longrightarrow>
   cluster_key r1 = cluster_key r2"
  by (simp add: cluster_key_def)

lemma distinct_keys_same_row:
  "distinct (map key xs) \<Longrightarrow> a \<in> set xs \<Longrightarrow> b \<in> set xs \<Longrightarrow> key a = key b \<Longrightarrow> a = b"
  by (meson distinct_map inj_onD)

text \<open>
  C2. When the compliance report returns its summary for a loaded table, the rows it counts
  are those of \<^verbatim>\<open>df_unique_clusters\<close>: rows of the copy with \<^verbatim>\<open>is_compliant\<close> made a
  lowercase string, exactly one for each pair of values of the columns \<^verbatim>\<open>job_org_id\<close> and
  \<^verbatim>\<open>job_cluster_id\<close> that occurs in the table. No two of them have the same pair, every row
  of the table has its pair among them, and the total is the number of distinct pairs, so
  that two clusters of one organisation count as two. The row kept for a pair is a most
  recent one: no row with the same \<^verbatim>\<open>job_org_id\<close> and the same \<^verbatim>\<open>job_cluster_id\<close> has a
  later \<^verbatim>\<open>job_created_date\<close>. Two values of a column are the same as \<^verbatim>\<open>drop_duplicates\<close>
  compares them. For the table of two rows for org 1 and cluster 9, dated 2024-01-01 (not
  compliant) and 2024-06-01 (compliant), the summary is 1 cluster in total, 1 compliant, none
  non-compliant, and a rate of 1, which prints as 100.00%.
\<close>

theorem latest_row_per_cluster:
  "(fst (get_cluster_compliance_summary h) = Inr (ClusterCompliance s) \<longrightarrow>
      (\<exists>u. unique_clusters (setitem (deref h df_combined_telemetry) ''is_compliant''
                 (lowered (deref h df_combined_telemetry))) = Inr u
          \<and> s = summarize_clusters u
          \<and> distinct (map (\<lambda>r. (dup_value (cell_of r ''job_org_id''),
                                  dup_value (cell_of r ''job_cluster_id''))) (rows u))
          \<and> (\<forall>r1 \<in> set (rows u). \<forall>r2 \<in> set (rows u).
                cell_of r1 ''job_org_id'' = cell_of r2 ''job_org_id''
                \<and> cell_of r1 ''job_cluster_id'' = cell_of r2 ''job_cluster_id'' \<longrightarrow> r1 = r2)
          \<and> set (rows u) \<subseteq> set (rows (setitem (deref h df_combined_telemetry) ''is_compliant''
                                          (lowered (deref h df_combined_telemetry))))
          \<and> (\<forall>r' \<in> set (rows (setitem (deref h df_combined_telemetry) ''is_compliant''
                                      (lowered (deref h df_combined_telemetry)))).
                \<exists>r \<in> set (rows u).
                  dup_value (cell_of r ''job_org_id'') = dup_value (cell_of r' ''job_org_id'')
                  \<and> dup_value (cell_of r ''job_cluster_id'')
                      = dup_value (cell_of r' ''job_cluster_id''))
          \<and> (\<lambda>r. (dup_value (cell_of r ''job_org_id''), dup_value (cell_of r ''job_cluster_id'')))
                ` set (rows u)
              = (\<lambda>r. (dup_value (cell_of r ''job_org_id''), dup_value (cell_of r ''job_cluster_id'')))
                ` set (rows (deref h df_combined_telemetry))
          \<and> total_clusters s
              = card ((\<lambda>r. (dup_value (cell_of r ''job_org_id''),
                             dup_value (cell_of r ''job_cluster_id'')))
                        ` set (rows (deref h df_combined_telemetry)))
          \<and> (\<forall>r \<in> set (rows u).
               \<forall>r' \<in> set (rows (setitem (deref h df_combined_telemetry) ''is_compliant''
                                      (lowered (deref h df_combined_telemetry)))).
                 dup_value (cell_of r' ''job_org_id'') = dup_value (cell_of r ''job_org_id'')
                 \<and> dup_value (cell_of r' ''job_cluster_id'')
                     = dup_value (cell_of r ''job_cluster_id'') \<longrightarrow>
                 not_later (cell_of r' ''job_created_date'') (cell_of r ''job_created_date''))))
   \<and> fst (get_cluster_compliance_summary (loaded two_rows_one_cluster)) =
       Inr (ClusterCompliance
         \<lparr>total_clusters = 1, compliant_count = 1, non_compliant_count = 0,
          compliance_rate = Some 1, non_compliant_sample = None\<rparr>)"
proof (intro conjI impI)
  let ?df = "setitem (deref h df_combined_telemetry) ''is_compliant''
               (lowered (deref h df_combined_telemetry))"
  let ?key = "\<lambda>r. (dup_value (cell_of r ''job_org_id''), dup_value (cell_of r ''job_cluster_id''))"
  have key: "cluster_key = ?key"
    by (rule ext) (simp add: cluster_key_def)
  assume "fst (get_cluster_compliance_summary h) = Inr (ClusterCompliance s)"
  then obtain u where u: "unique_clusters ?df = Inr u" and s: "s = summarize_clusters u"
    using compliance_report_unique by blast
  have dist: "distinct (map ?key (rows u))"
    using unique_clusters_rows(2) [OF u] by (simp only: key)
  have same: "\<forall>r1 \<in> set (rows u). \<forall>r2 \<in> set (rows u).
      cell_of r1 ''job_org_id'' = cell_of r2 ''job_org_id''
      \<and> cell_of r1 ''job_cluster_id'' = cell_of r2 ''job_cluster_id'' \<longrightarrow> r1 = r2"
    using distinct_keys_same_row [OF unique_clusters_rows(2) [OF u]] same_cells_same_key
    by blast
  have sub: "set (rows u) \<subseteq> set (rows ?df)"
    using u by (rule unique_clusters_rows)
  have img: "?key ` set (rows u) = ?key ` set (rows ?df)"
    using unique_clusters_rows(4) [OF u] by (simp only: key)
  have cover: "\<forall>r' \<in> set (rows ?df). \<exists>r \<in> set (rows u).
      dup_value (cell_of r ''job_org_id'') = dup_value (cell_of r' ''job_org_id'')
      \<and> dup_value (cell_of r ''job_cluster_id'') = dup_value (cell_of r' ''job_cluster_id'')"
  proof
    fix r' assume "r' \<in> set (rows ?df)"
    then have "?key r' \<in> ?key ` set (rows u)" using img by blast
    then obtain r where "r \<in> set (rows u)" "?key r = ?key r'" by auto
    then show "\<exists>r \<in> set (rows u).
      dup_value (cell_of r ''job_org_id'') = dup_value (cell_of r' ''job_org_id'')
      \<and> dup_value (cell_of r ''job_cluster_id'') = dup_value (cell_of r' ''job_cluster_id'')"
      by auto
  qed
  have keys: "?key ` set (rows u) = ?key ` set (rows (deref h df_combined_telemetry))"
    using unique_clusters_rows(4) [OF u] cluster_keys_normalized [of "deref h df_combined_telemetry"]
    by (simp only: key)
  have "total_clusters s = length (rows u)"
    using s by (simp add: summarize_clusters_def Let_def)
  then have total: "total_clusters s = card (?key ` set (rows (deref h df_combined_telemetry)))"
    using unique_clusters_rows(5) [OF u] cluster_keys_normalized [of "deref h df_combined_telemetry"]
    by (simp only: key)
  have latest: "\<forall>r \<in> set (rows u). \<forall>r' \<in> set (rows ?df).
      dup_value (cell_of r' ''job_org_id'') = dup_value (cell_of r ''job_org_id'')
      \<and> dup_value (cell_of r' ''job_cluster_id'') = dup_value (cell_of r ''job_cluster_id'') \<longrightarrow>
      not_later (cell_of r' ''job_created_date'') (cell_of r ''job_created_date'')"
    using unique_clusters_rows(6) [OF u] by (simp add: cluster_key_def)
  show "\<exists>u. unique_clusters ?df = Inr u
          \<and> s = summarize_clusters u
          \<and> distinct (map ?key (rows u))
          \<and> (\<forall>r1 \<in> set (rows u). \<forall>r2 \<in> set (rows u).
                cell_of r1 ''job_org_id'' = cell_of r2 ''job_org_id''
                \<and> cell_of r1 ''job_cluster_id'' = cell_of r2 ''job_cluster_id'' \<longrightarrow> r1 = r2)
          \<and> set (rows u) \<subseteq> set (rows ?df)
          \<and> (\<forall>r' \<in> set (rows ?df). \<exists>r \<in> set (rows u).
                  dup_value (cell_of r ''job_org_id'') = dup_value (cell_of r' ''job_org_id'')
                  \<and> dup_value (cell_of r ''job_cluster_id'')
                      = dup_value (cell_of r' ''job_cluster_id''))
          \<and> ?key ` set (rows u) = ?key ` set (rows (deref h df_combined_telemetry))
          \<and> total_clusters s = card (?key ` set (rows (deref h df_combined_telemetry)))
          \<and> (\<forall>r \<in> set (rows u). \<forall>r' \<in> set (rows ?df).
                 dup_value (cell_of r' ''job_org_id'') = dup_value (cell_of r ''job_org_id'')
                 \<and> dup_value (cell_of r' ''job_cluster_id'')
                     = dup_value (cell_of r ''job_cluster_id'') \<longrightarrow>
                 not_later (cell_of r' ''job_created_date'') (cell_of r ''job_created_date''))"
    using u s dist same sub cover keys total latest by blast
next
  show "fst (get_cluster_compliance_summary (loaded two_rows_one_cluster)) =
       Inr (ClusterCompliance
         \<lparr>total_clusters = 1, compliant_count = 1, non_compliant_count = 0,
          compliance_rate = Some 1, non_compliant_sample = None\<rparr>)"
    by (rule two_rows_summary)
qed

theorem latest_row_per_cluster_witness:
  "fst (get_cluster_compliance_summary (loaded two_clusters_one_org)) =
     Inr (ClusterCompliance
       \<lparr>total_clusters = 2, compliant_count = 1, non_compliant_count = 1,
        compliance_rate = Some (1 / 2),
        non_compliant_sample =
          Some ([''job_org_id'', ''job_cluster_id''], [[PyInt 1, PyInt 7]])\<rparr>)
   \<and> card ((\<lambda>r. (dup_value (cell_of r ''job_org_id''), dup_value (cell_of r ''job_cluster_id'')))
             ` set (rows (deref (loaded two_clusters_one_org) df_combined_telemetry))) = 2
   \<and> fst (get_cluster_compliance_summary (loaded two_rows_one_cluster)) =
       Inr (ClusterCompliance
         \<lparr>total_clusters = 1, compliant_count = 1, non_compliant_count = 0,
          compliance_rate = Some 1, non_compliant_sample = None\<rparr>)"
  using latest_row_per_cluster [of "loaded two_clusters_one_org"
      "\<lparr>total_clusters = 2, compliant_count = 1, non_compliant_count = 1,
        compliance_rate = Some (1 / 2),
        non_compliant_sample =
          Some ([''job_org_id'', ''job_cluster_id''], [[PyInt 1, PyInt 7]])\<rparr>"]
    two_clusters_summary
  by auto

text \<open>
  C10. In every summary that the compliance report returns, the compliant count plus the
  non-compliant count is at most the total; and it is less than the total exactly when
  some row of \<^verbatim>\<open>df_unique_clusters\<close> has a normalized \<^verbatim>\<open>is_compliant\<close> that is neither
  \<^verbatim>\<open>true\<close> nor \<^verbatim>\<open>false\<close>, as a null, normalized to \<^verbatim>\<open>none\<close>, is.
\<close>

theorem compliance_counts_within_total:
  assumes "fst (get_cluster_compliance_summary h) = Inr (ClusterCompliance s)"
  shows "compliant_count s + non_compliant_count s \<le> total_clusters s
       \<and> (\<exists>u. unique_clusters (setitem (deref h df_combined_telemetry) ''is_compliant''
                   (lowered (deref h df_combined_telemetry))) = Inr u
            \<and> s = summarize_clusters u
            \<and> (compliant_count s + non_compliant_count s < total_clusters s
                 \<longleftrightarrow> (\<exists>r \<in> set (rows u). cell_of r ''is_compliant'' \<noteq> PyStr ''true''
                                          \<and> cell_of r ''is_compliant'' \<noteq> PyStr ''false'')))"
proof -
  obtain u where u: "unique_clusters (setitem (deref h df_combined_telemetry) ''is_compliant''
                   (lowered (deref h df_combined_telemetry))) = Inr u"
    and s: "s = summarize_clusters u"
    using assms compliance_report_unique by blast
  show ?thesis
    using u s summarize_clusters_counts [of u] by blast
qed

theorem compliance_counts_within_total_witness:
  "fst (get_cluster_compliance_summary (loaded clusters_with_null_flag)) =
     Inr (ClusterCompliance
       \<lparr>total_clusters = 2, compliant_count = 1, non_compliant_count = 0,
        compliance_rate = Some (1 / 2), non_compliant_sample = None\<rparr>)
   \<and> (\<exists>u. unique_clusters (setitem clusters_with_null_flag ''is_compliant''
               (lowered clusters_with_null_flag)) = Inr u
        \<and> (\<exists>r \<in> set (rows u). cell_of r ''is_compliant'' \<noteq> PyStr ''true''
                                 \<and> cell_of r ''is_compliant'' \<noteq> PyStr ''false''))"
  using compliance_counts_within_total [OF null_flag_summary] null_flag_summary
  by auto

section \<open>Top modules: groups, sums and rank\<close>




















end
